theory Spec2Isabelle
  imports Main "HOL-Library.AList"
begin

section \<open>Strings\<close>

text \<open>
  A Python \<open>str\<close> is modelled as a \<open>string\<close>; each \<open>char\<close> is read as one code point
  in the range 0..255. In that range the characters for which \<open>str.isspace\<close> holds are
  U+0009..U+000D, U+001C..U+001F, U+0020, U+0085 and U+00A0, and the only decimal digits
  (the class \<open>\d\<close> of a \<open>str\<close> pattern) are \<open>0\<close>..\<open>9\<close>.
\<close>

definition is_space :: "char \<Rightarrow> bool" where
  "is_space c = (c \<in> set [CHR 0x09, CHR 0x0A, CHR 0x0B, CHR 0x0C, CHR 0x0D,
                            CHR 0x1C, CHR 0x1D, CHR 0x1E, CHR 0x1F, CHR 0x20,
                            CHR 0x85, CHR 0xA0])"

definition is_digit :: "char \<Rightarrow> bool" where
  "is_digit c = (c \<in> set ''0123456789'')"

text \<open>\<open>s.split()\<close>: the maximal runs of non-whitespace characters, in order.\<close>

fun str_split_aux :: "string \<Rightarrow> string \<Rightarrow> string list" where
  "str_split_aux cur [] = (if cur = [] then [] else [cur])"
| "str_split_aux cur (c # cs) =
     (if is_space c then (if cur = [] then str_split_aux [] cs else cur # str_split_aux [] cs)
      else str_split_aux (cur @ [c]) cs)"

definition str_split :: "string \<Rightarrow> string list" where
  "str_split s = str_split_aux [] s"

text \<open>\<open>s.strip()\<close>: whitespace removed at both ends.\<close>

definition str_strip :: "string \<Rightarrow> string" where
  "str_strip s = rev (dropWhile is_space (rev (dropWhile is_space s)))"

text \<open>\<open>sep.join(xs)\<close>.\<close>

fun str_join :: "string \<Rightarrow> string list \<Rightarrow> string" where
  "str_join sep [] = []"
| "str_join sep [x] = x"
| "str_join sep (x # y # ys) = x @ sep @ str_join sep (y # ys)"

text \<open>Decimal numerals: \<open>int(s)\<close> on a string of digits with optional surrounding
  whitespace, \<open>str(n)\<close>, and zero padding to a width.\<close>

definition digit_val :: "char \<Rightarrow> nat" where
  "digit_val c = of_char c - 48"

definition digit_char :: "nat \<Rightarrow> char" where
  "digit_char n = char_of (48 + n)"

definition py_int :: "string \<Rightarrow> nat" where
  "py_int s = foldl (\<lambda>acc c. 10 * acc + digit_val c) 0 (str_strip s)"

fun decimal :: "nat \<Rightarrow> string" where
  "decimal n = (if n < 10 then [digit_char n] else decimal (n div 10) @ [digit_char (n mod 10)])"

declare decimal.simps [simp del]

definition zfill :: "nat \<Rightarrow> string \<Rightarrow> string" where
  "zfill w s = replicate (w - length s) (CHR ''0'') @ s"

section \<open>The phone pattern\<close>

text \<open>
  \<open>PHONE_PATTERN = re.compile(r'^\+?\d{10}$')\<close>, used through \<open>PHONE_PATTERN.match\<close>:
  an optional \<open>+\<close>, exactly ten digits, and then the end of the string, where \<open>$\<close> also
  matches just before a newline that ends the string.
\<close>

definition phone_body :: "string \<Rightarrow> bool" where
  "phone_body s =
     (let t = (case s of [] \<Rightarrow> [] | c # cs \<Rightarrow> if c = CHR ''+'' then cs else s)
      in length t = 10 \<and> list_all is_digit t)"

definition PHONE_PATTERN_match :: "string \<Rightarrow> bool" where
  "PHONE_PATTERN_match s =
     (phone_body s \<or> (s \<noteq> [] \<and> last s = CHR 0x0A \<and> phone_body (butlast s)))"

section \<open>Exceptions\<close>

text \<open>The exceptions that occur, each with the text \<open>str(e)\<close> gives where the code reads it.\<close>

datatype py_error =
    ValueError string
  | KeyError string
  | IndexError string
  | FileNotFoundError
  | UnpicklingError
  | OverflowError

section \<open>Calendar dates\<close>

text \<open>
  \<open>datetime.date\<close>: year, month and day. The constructor checks the ranges and raises
  \<open>ValueError\<close>; the texts are CPython's, which the program only passes on.
\<close>

record date =
  year :: nat
  month :: nat
  day :: nat

definition is_leap :: "nat \<Rightarrow> bool" where
  "is_leap y = (y mod 4 = 0 \<and> (y mod 100 \<noteq> 0 \<or> y mod 400 = 0))"

definition days_in_month :: "nat \<Rightarrow> nat \<Rightarrow> nat" where
  "days_in_month y m =
     (if m = 2 then (if is_leap y then 29 else 28)
      else if m = 4 \<or> m = 6 \<or> m = 9 \<or> m = 11 then 30 else 31)"

definition mk_date :: "nat \<Rightarrow> nat \<Rightarrow> nat \<Rightarrow> py_error + date" where
  "mk_date y m d =
     (if \<not> (1 \<le> y \<and> y \<le> 9999) then Inl (ValueError (''year '' @ decimal y @ '' is out of range''))
      else if \<not> (1 \<le> m \<and> m \<le> 12) then Inl (ValueError ''month must be in 1..12'')
      else if \<not> (1 \<le> d \<and> d \<le> days_in_month y m) then Inl (ValueError ''day is out of range for month'')
      else Inr \<lparr>year = y, month = m, day = d\<rparr>)"

text \<open>Comparison of dates is lexicographic on year, month, day.\<close>

definition date_le :: "date \<Rightarrow> date \<Rightarrow> bool" where
  "date_le a b =
     (year a < year b \<or> (year a = year b \<and> (month a < month b \<or> (month a = month b \<and> day a \<le> day b))))"

definition date_lt :: "date \<Rightarrow> date \<Rightarrow> bool" where
  "date_lt a b = (date_le a b \<and> a \<noteq> b)"

text \<open>\<open>d.replace(year=y)\<close> builds a new date and so repeats the constructor's checks.\<close>

definition date_replace_year :: "date \<Rightarrow> nat \<Rightarrow> py_error + date" where
  "date_replace_year d y = mk_date y (month d) (day d)"

text \<open>\<open>d + timedelta(days=n)\<close>: the date \<open>n\<close> days later, or \<open>OverflowError\<close> past year 9999.\<close>

definition next_day :: "date \<Rightarrow> date" where
  "next_day d =
     (if day d < days_in_month (year d) (month d) then d\<lparr>day := day d + 1\<rparr>
      else if month d < 12 then d\<lparr>month := month d + 1, day := 1\<rparr>
      else \<lparr>year = year d + 1, month = 1, day = 1\<rparr>)"

definition date_add_days :: "date \<Rightarrow> nat \<Rightarrow> py_error + date" where
  "date_add_days d n =
     (let r = (next_day ^^ n) d in if year r \<le> 9999 then Inr r else Inl OverflowError)"

text \<open>
  \<open>datetime.strptime(value, "%d-%m-%Y").date()\<close>. The format compiles to the pattern
  \<open>(3[0-1]|[1-2]\d|0[1-9]|[1-9]| [1-9])-(1[0-2]|0[1-9]|[1-9])-(\d\d\d\d)\<close>, which has to
  match the whole string; the three groups are read with \<open>int\<close> and passed to the date
  constructor. None of the alternatives for day and month contains \<open>-\<close>, so the day is the
  text before the first \<open>-\<close> and the month the text up to the next one. Every failure is a
  \<open>ValueError\<close>, the result \<open>None\<close> here; its text is never read by the program.
\<close>

definition nonzero_digit :: "char \<Rightarrow> bool" where
  "nonzero_digit c = (c \<in> set ''123456789'')"

fun day_field :: "string \<Rightarrow> bool" where
  "day_field [a] = nonzero_digit a"
| "day_field [a, b] =
     ((a = CHR ''3'' \<and> (b = CHR ''0'' \<or> b = CHR ''1''))
      \<or> ((a = CHR ''1'' \<or> a = CHR ''2'') \<and> is_digit b)
      \<or> (a = CHR ''0'' \<and> nonzero_digit b)
      \<or> (a = CHR '' '' \<and> nonzero_digit b))"
| "day_field _ = False"

fun month_field :: "string \<Rightarrow> bool" where
  "month_field [a] = nonzero_digit a"
| "month_field [a, b] =
     ((a = CHR ''1'' \<and> (b = CHR ''0'' \<or> b = CHR ''1'' \<or> b = CHR ''2''))
      \<or> (a = CHR ''0'' \<and> nonzero_digit b))"
| "month_field _ = False"

definition year_field :: "string \<Rightarrow> bool" where
  "year_field s = (length s = 4 \<and> list_all is_digit s)"

definition strptime_dmy :: "string \<Rightarrow> date option" where
  "strptime_dmy s =
     (let d = takeWhile (\<lambda>c. c \<noteq> CHR ''-'') s in
      case drop (length d) s of
        [] \<Rightarrow> None
      | _ # s1 \<Rightarrow>
          (let m = takeWhile (\<lambda>c. c \<noteq> CHR ''-'') s1 in
           case drop (length m) s1 of
             [] \<Rightarrow> None
           | _ # y \<Rightarrow>
               if day_field d \<and> month_field m \<and> year_field y
               then (case mk_date (py_int y) (py_int m) (py_int d) of
                       Inl e \<Rightarrow> None
                     | Inr v \<Rightarrow> Some v)
               else None))"

text \<open>
  \<open>d.strftime('%d-%m-%Y')\<close>: day and month with two digits, the year as the platform's C
  library prints it. For a year of four digits all platforms agree; below 1000 some pad
  with zeros to four digits and others do not, which \<open>zpad\<close> records.
\<close>

definition strftime_dmy :: "bool \<Rightarrow> date \<Rightarrow> string" where
  "strftime_dmy zpad d =
     zfill 2 (decimal (day d)) @ ''-'' @ zfill 2 (decimal (month d)) @ ''-''
       @ (if zpad then zfill 4 (decimal (year d)) else decimal (year d))"

section \<open>Fields, records and the address book\<close>

text \<open>
  \<open>Birthday(value)\<close> parses the date and turns every \<open>ValueError\<close> of the parser into its
  own. The result is the \<open>value\<close> attribute of the field.
\<close>

definition Birthday :: "string \<Rightarrow> py_error + date" where
  "Birthday v =
     (case strptime_dmy v of
        None \<Rightarrow> Inl (ValueError ''Invalid date format. Use DD-MM-YYYY'')
      | Some d \<Rightarrow> Inr d)"

text \<open>A \<open>Record\<close>: the value of its \<open>Name\<close> field, the phone list, the birthday or \<open>None\<close>.\<close>

record Record =
  name :: string
  phones :: "string list"
  birthday :: "date option"

definition Record_init :: "string \<Rightarrow> Record" where
  "Record_init nm = \<lparr>name = nm, phones = [], birthday = None\<rparr>"

definition Record_add_phone :: "Record \<Rightarrow> string \<Rightarrow> py_error + Record" where
  "Record_add_phone r phone =
     (if \<not> PHONE_PATTERN_match phone then Inl (ValueError ''Invalid phone number format.'')
      else Inr (r\<lparr>phones := phones r @ [phone]\<rparr>))"

definition Record_add_birthday :: "Record \<Rightarrow> string \<Rightarrow> py_error + Record" where
  "Record_add_birthday r birthday_str =
     (case Birthday birthday_str of
        Inl e \<Rightarrow> Inl e
      | Inr d \<Rightarrow> Inr (r\<lparr>birthday := Some d\<rparr>))"

text \<open>
  \<open>AddressBook\<close> is a \<open>dict\<close>: an association list in insertion order. Storing under a key
  that is present replaces the value where it stands; a new key goes to the end. The
  program never stores one \<open>Record\<close> object under two keys, so a record changed in place
  is the entry under the key it was found by: the handlers replace that entry where it
  stands (\<open>AList.map_entry\<close>), which adds no key. Only \<open>add_record\<close> adds one.
\<close>

type_synonym AddressBook = "(string \<times> Record) list"

definition AddressBook_add_record :: "AddressBook \<Rightarrow> Record \<Rightarrow> AddressBook" where
  "AddressBook_add_record book r = AList.update (name r) r book"

definition AddressBook_find :: "AddressBook \<Rightarrow> string \<Rightarrow> Record option" where
  "AddressBook_find book nm = map_of book nm"

text \<open>
  The books the program builds: the keys are distinct, as in any \<open>dict\<close>, and each record
  stands under its own name, since \<open>add_record\<close> is the only way in.
\<close>

definition well_formed :: "AddressBook \<Rightarrow> bool" where
  "well_formed book = (distinct (map fst book) \<and> list_all (\<lambda>(k, r). name r = k) book)"

section \<open>Persistence\<close>

text \<open>
  The files of the working directory, by name. A file holds either the pickle stream of
  an address book, which \<open>pickle.load\<close> turns back into that book, or bytes that
  \<open>pickle.load\<close> rejects with an exception (\<open>UnpicklingError\<close> stands for whichever it
  raises). Opening a file for writing is taken to succeed.
\<close>

datatype file_content = Pickle AddressBook | Corrupt

type_synonym filesystem = "string \<Rightarrow> file_content option"

definition open_rb :: "string \<Rightarrow> filesystem \<Rightarrow> py_error + file_content" where
  "open_rb filename fs =
     (case fs filename of None \<Rightarrow> Inl FileNotFoundError | Some c \<Rightarrow> Inr c)"

definition pickle_load :: "file_content \<Rightarrow> py_error + AddressBook" where
  "pickle_load c = (case c of Pickle book \<Rightarrow> Inr book | Corrupt \<Rightarrow> Inl UnpicklingError)"

definition load_data :: "string \<Rightarrow> filesystem \<Rightarrow> py_error + AddressBook" where
  "load_data filename fs =
     (case (case open_rb filename fs of Inl e \<Rightarrow> Inl e | Inr f \<Rightarrow> pickle_load f) of
        Inl FileNotFoundError \<Rightarrow> Inr []
      | Inl e \<Rightarrow> Inl e
      | Inr book \<Rightarrow> Inr book)"

definition save_data :: "AddressBook \<Rightarrow> string \<Rightarrow> filesystem \<Rightarrow> filesystem" where
  "save_data book filename fs = fs(filename \<mapsto> Pickle book)"

definition default_filename :: string where
  "default_filename = ''addressbook.pkl''"

section \<open>Command handlers\<close>

text \<open>
  A handler reads its argument string and works on the address book and the files; it
  gives back what it returns or raises, together with the book and the files as it
  leaves them.
\<close>

type_synonym state = "AddressBook \<times> filesystem"

text \<open>The decorator \<open>input_error\<close>, applied to what the wrapped function returned or raised.\<close>

definition input_error :: "py_error + string \<Rightarrow> py_error + string" where
  "input_error res =
     (case res of
        Inr v \<Rightarrow> Inr v
      | Inl (ValueError m) \<Rightarrow>
          if m \<in> set [''Enter name and phone please'', ''Invalid phone number format.'']
          then Inr m else Inr m
      | Inl (KeyError m) \<Rightarrow> Inr ''Enter name!''
      | Inl (IndexError m) \<Rightarrow> Inr ''Enter name and phone number!''
      | Inl e \<Rightarrow> Inl e)"

definition add_contact_body :: "string \<Rightarrow> state \<Rightarrow> (py_error + string) \<times> state" where
  "add_contact_body args st =
     (case st of (book, fs) \<Rightarrow>
      case str_split args of
        nm # phone # _ \<Rightarrow>
          if \<not> PHONE_PATTERN_match phone
          then (Inl (ValueError ''Invalid phone number format.''), (book, fs))
          else
            (let (record, book1, message) =
                   (case AddressBook_find book nm of
                      None \<Rightarrow> (Record_init nm, AddressBook_add_record book (Record_init nm),
                                ''Contact added.'')
                    | Some r \<Rightarrow> (r, book, ''Contact updated.''))
             in case Record_add_phone record phone of
                  Inl e \<Rightarrow> (Inl e, (book1, fs))
                | Inr r' \<Rightarrow>
                    (let book2 = AList.map_entry nm (\<lambda>_. r') book1
                     in (Inr message, (book2, save_data book2 default_filename fs))))
      | _ \<Rightarrow> (Inl (ValueError ''Enter name and phone please''), (book, fs)))"

definition add_contact :: "string \<Rightarrow> state \<Rightarrow> (py_error + string) \<times> state" where
  "add_contact args st = (case add_contact_body args st of (res, st') \<Rightarrow> (input_error res, st'))"

definition change_contact_body :: "string \<Rightarrow> state \<Rightarrow> (py_error + string) \<times> state" where
  "change_contact_body user_input st =
     (case st of (book, fs) \<Rightarrow>
      case str_split user_input of
        nm # new_phone_number # _ \<Rightarrow>
          if \<not> PHONE_PATTERN_match new_phone_number
          then (Inl (ValueError ''Invalid phone number format.''), (book, fs))
          else
            (case AddressBook_find book nm of
               Some r \<Rightarrow>
                 (let book' = AList.map_entry nm (\<lambda>_. r\<lparr>phones := [new_phone_number]\<rparr>) book
                  in (Inr ''Contact updated!.'', (book', save_data book' default_filename fs)))
             | None \<Rightarrow> (Inr ''Contact not found!.'', (book, fs)))
      | _ \<Rightarrow> (Inl (ValueError ''Enter name and phone please''), (book, fs)))"

definition change_contact :: "string \<Rightarrow> state \<Rightarrow> (py_error + string) \<times> state" where
  "change_contact user_input st =
     (case change_contact_body user_input st of (res, st') \<Rightarrow> (input_error res, st'))"

definition show_phone_body :: "string \<Rightarrow> state \<Rightarrow> (py_error + string) \<times> state" where
  "show_phone_body user_input st =
     (case AddressBook_find (fst st) (str_strip user_input) of
        Some r \<Rightarrow> (Inr (str_join '', '' (phones r)), st)
      | None \<Rightarrow> (Inr ''Contact not found!.'', st))"

definition show_phone :: "string \<Rightarrow> state \<Rightarrow> (py_error + string) \<times> state" where
  "show_phone user_input st =
     (case show_phone_body user_input st of (res, st') \<Rightarrow> (input_error res, st'))"

text \<open>
  \<open>name, birthday_str, *_ = user_input.split()\<close> raises \<open>ValueError\<close> with the
  interpreter's own text when there are fewer than two tokens.
\<close>

definition add_birthday_body :: "string \<Rightarrow> state \<Rightarrow> (py_error + string) \<times> state" where
  "add_birthday_body user_input st =
     (case st of (book, fs) \<Rightarrow>
      case str_split user_input of
        [] \<Rightarrow> (Inl (ValueError ''not enough values to unpack (expected at least 2, got 0)''), (book, fs))
      | [_] \<Rightarrow> (Inl (ValueError ''not enough values to unpack (expected at least 2, got 1)''), (book, fs))
      | nm # birthday_str # _ \<Rightarrow>
          (case AddressBook_find book nm of
             Some r \<Rightarrow>
               (case Record_add_birthday r birthday_str of
                  Inl e \<Rightarrow> (Inl e, (book, fs))
                | Inr r' \<Rightarrow>
                    (let book' = AList.map_entry nm (\<lambda>_. r') book
                     in (Inr ''Birthday added!.'', (book', save_data book' default_filename fs))))
           | None \<Rightarrow> (Inr ''Contact not found!.'', (book, fs))))"

definition add_birthday :: "string \<Rightarrow> state \<Rightarrow> (py_error + string) \<times> state" where
  "add_birthday user_input st =
     (case add_birthday_body user_input st of (res, st') \<Rightarrow> (input_error res, st'))"

definition show_birthday_body :: "bool \<Rightarrow> string \<Rightarrow> state \<Rightarrow> (py_error + string) \<times> state" where
  "show_birthday_body zpad user_input st =
     (case AddressBook_find (fst st) (str_strip user_input) of
        Some r \<Rightarrow>
          (case birthday r of
             Some b \<Rightarrow> (Inr (strftime_dmy zpad b), st)
           | None \<Rightarrow> (Inr ''No birthday set!.'', st))
      | None \<Rightarrow> (Inr ''Contact not found!.'', st))"

definition show_birthday :: "bool \<Rightarrow> string \<Rightarrow> state \<Rightarrow> (py_error + string) \<times> state" where
  "show_birthday zpad user_input st =
     (case show_birthday_body zpad user_input st of (res, st') \<Rightarrow> (input_error res, st'))"

text \<open>
  \<open>show_upcoming_birthdays\<close>: the loop over \<open>book.values()\<close> that fills
  \<open>upcoming_birthdays\<close>, then the printing. \<open>today\<close> is what \<open>datetime.today().date()\<close>
  gives. The function returns \<open>None\<close>; when the decorator catches an exception it returns
  the message instead, and nothing has been printed. The caller drops the returned value.
\<close>

fun upcoming_loop :: "date \<Rightarrow> date \<Rightarrow> AddressBook \<Rightarrow> (string \<times> date) list
                      \<Rightarrow> py_error + (string \<times> date) list" where
  "upcoming_loop today next_week [] acc = Inr acc"
| "upcoming_loop today next_week ((k, r) # rest) acc =
     (case birthday r of
        None \<Rightarrow> upcoming_loop today next_week rest acc
      | Some b \<Rightarrow>
          (case date_replace_year b (year today) of
             Inl e \<Rightarrow> Inl e
           | Inr this_year_birthday \<Rightarrow>
               if date_le today this_year_birthday \<and> date_le this_year_birthday next_week
               then upcoming_loop today next_week rest (acc @ [(name r, this_year_birthday)])
               else upcoming_loop today next_week rest acc))"

definition upcoming_birthdays :: "date \<Rightarrow> AddressBook \<Rightarrow> py_error + (string \<times> date) list" where
  "upcoming_birthdays today book =
     (case date_add_days today 7 of
        Inl e \<Rightarrow> Inl e
      | Inr next_week \<Rightarrow> upcoming_loop today next_week book [])"

definition show_upcoming_birthdays_body :: "bool \<Rightarrow> date \<Rightarrow> AddressBook \<Rightarrow> py_error + string list" where
  "show_upcoming_birthdays_body zpad today book =
     (case upcoming_birthdays today book of
        Inl e \<Rightarrow> Inl e
      | Inr ups \<Rightarrow>
          if ups \<noteq> [] then Inr (map (\<lambda>(nm, d). nm @ '': '' @ strftime_dmy zpad d) ups)
          else Inr [''No upcoming birthdays!.''])"

text \<open>The result: the lines printed, and the value returned (\<open>None\<close> for Python's \<open>None\<close>).\<close>

definition show_upcoming_birthdays :: "bool \<Rightarrow> date \<Rightarrow> AddressBook
                                        \<Rightarrow> py_error + (string list \<times> string option)" where
  "show_upcoming_birthdays zpad today book =
     (case show_upcoming_birthdays_body zpad today book of
        Inr printed \<Rightarrow> Inr (printed, None)
      | Inl e \<Rightarrow>
          (case input_error (Inl e) of
             Inr m \<Rightarrow> Inr ([], Some m)
           | Inl e' \<Rightarrow> Inl e'))"

section \<open>The written form of a date\<close>

text \<open>
  The form \<open>DD-MM-YYYY\<close> taken literally: two digits, a hyphen, two digits, a hyphen,
  four digits. The parser accepts more than this (a day or month of one digit, a day
  padded with a space).
\<close>

definition zero_padded_dmy :: "string \<Rightarrow> bool" where
  "zero_padded_dmy s =
     (case s of
        [d1, d2, h1, m1, m2, h2, y1, y2, y3, y4] \<Rightarrow>
          is_digit d1 \<and> is_digit d2 \<and> h1 = CHR ''-'' \<and> is_digit m1 \<and> is_digit m2
          \<and> h2 = CHR ''-'' \<and> is_digit y1 \<and> is_digit y2 \<and> is_digit y3 \<and> is_digit y4
      | _ \<Rightarrow> False)"

section \<open>Sample data\<close>

definition bob_old :: Record where
  "bob_old = \<lparr>name = ''Bob'', phones = [''0501112233'', ''0502223344''], birthday = None\<rparr>"

definition bob_new :: Record where
  "bob_new = \<lparr>name = ''Bob'', phones = [''1234567890''], birthday = None\<rparr>"

definition eve :: Record where
  "eve = \<lparr>name = ''Eve'', phones = [''0501112233''],
          birthday = Some \<lparr>year = 1990, month = 1, day = 2\<rparr>\<rparr>"

definition zed :: Record where
  "zed = \<lparr>name = ''Zed'', phones = [''0503334455''],
          birthday = Some \<lparr>year = 1985, month = 12, day = 31\<rparr>\<rparr>"

definition new_years_eve :: date where
  "new_years_eve = \<lparr>year = 2024, month = 12, day = 30\<rparr>"

definition alice :: Record where
  "alice = \<lparr>name = ''Alice'', phones = [''0501112233''],
            birthday = Some \<lparr>year = 2000, month = 3, day = 2\<rparr>\<rparr>"

definition bob_leap :: Record where
  "bob_leap = \<lparr>name = ''Bob'', phones = [''0502223344''],
               birthday = Some \<lparr>year = 2000, month = 2, day = 29\<rparr>\<rparr>"

definition march_first :: date where
  "march_first = \<lparr>year = 2025, month = 3, day = 1\<rparr>"

section \<open>Saving and loading\<close>

text \<open>
  C1. For every store, saving it and then loading from the same file gives the store
  back: the same names in the same order, each with the same phone list and the same
  birthday. That \<open>pickle.load\<close> inverts \<open>pickle.dump\<close> is the library's contract and part
  of the model of a file; what the program adds is that \<open>save_data\<close> replaces the whole
  file and \<open>load_data\<close> reads that same file.
\<close>

theorem save_then_load:
  "load_data filename (save_data book filename fs) = Inr book"
  by (simp add: load_data_def open_rb_def pickle_load_def save_data_def)

text \<open>
  C2, as stated, fails: \<open>load_data\<close> catches \<open>FileNotFoundError\<close> only, so a file that is
  there but cannot be deserialized makes it raise instead of giving an empty store.
\<close>

theorem load_corrupt_counterexample:
  "load_data default_filename (Map.empty(default_filename \<mapsto> Corrupt)) \<noteq> Inr []"
  by (simp add: load_data_def open_rb_def pickle_load_def)

text \<open>
  C2, amended. When the persistence file is missing, loading gives the empty store; when
  the file is there and cannot be deserialized, \<open>load_data\<close> raises the unpickler's
  exception.
\<close>

theorem load_missing_or_corrupt:
  "(fs filename = None \<longrightarrow> load_data filename fs = Inr [])
   \<and> (fs filename = Some Corrupt \<longrightarrow> load_data filename fs = Inl UnpicklingError)"
  by (simp add: load_data_def open_rb_def pickle_load_def)

theorem load_missing_or_corrupt_witness:
  "load_data default_filename Map.empty = Inr []
   \<and> load_data default_filename (Map.empty(default_filename \<mapsto> Corrupt)) = Inl UnpicklingError"
  using load_missing_or_corrupt [of Map.empty default_filename]
        load_missing_or_corrupt [of "Map.empty(default_filename \<mapsto> Corrupt)" default_filename]
  by simp

section \<open>Adding and changing contacts\<close>

lemma split_bob: "str_split ''Bob 1234567890'' = ''Bob'' # ''1234567890'' # []"
  by (simp add: str_split_def is_space_def)

lemma phone_ok: "PHONE_PATTERN_match ''1234567890''"
  by (simp add: PHONE_PATTERN_match_def phone_body_def is_digit_def)

lemma map_entry_keys: "map fst (AList.map_entry k f xs) = map fst xs"
  by (induct xs) auto

lemma find_map_entry:
  "AddressBook_find (AList.map_entry k f book) k'
     = (if k' = k then map_option f (AddressBook_find book k) else AddressBook_find book k')"
  by (simp add: AddressBook_find_def AList.map_of_map_entry split: option.splits)

text \<open>Whenever \<open>add\<close>, \<open>change\<close> or \<open>add-birthday\<close> changes the book, the file then holds
  the book as the handler left it.\<close>

lemma add_contact_saved:
  assumes "str_split args = nm # phone # rest" and "PHONE_PATTERN_match phone"
      and "add_contact args (book, fs) = (res, (book', fs'))"
  shows "load_data default_filename fs' = Inr book'"
  using assms
  by (cases "AddressBook_find book nm")
     (auto simp: add_contact_def add_contact_body_def Let_def Record_add_phone_def
                 load_data_def open_rb_def pickle_load_def save_data_def)

lemma change_contact_saved:
  assumes "change_contact user_input (book, fs) = (Inr ''Contact updated!.'', (book', fs'))"
  shows "load_data default_filename fs' = Inr book'"
  using assms
  by (auto simp: change_contact_def change_contact_body_def Let_def input_error_def
                 load_data_def open_rb_def pickle_load_def save_data_def
           split: list.splits if_splits option.splits)

lemma add_birthday_saved:
  assumes "add_birthday user_input (book, fs) = (Inr ''Birthday added!.'', (book', fs'))"
  shows "load_data default_filename fs' = Inr book'"
  using assms
  by (auto simp: add_birthday_def add_birthday_body_def Let_def input_error_def
                 Record_add_birthday_def Birthday_def
                 load_data_def open_rb_def pickle_load_def save_data_def
           split: list.splits if_splits option.splits sum.splits)

text \<open>
  C3. When the phone argument (the second token of the argument string) does not match
  the pattern, \<open>add\<close> and \<open>change\<close> return the error message and leave the address book and
  the files as they were.
\<close>

theorem invalid_phone_rejected:
  assumes "str_split args = nm # phone # rest" and "\<not> PHONE_PATTERN_match phone"
  shows "add_contact args st = (Inr ''Invalid phone number format.'', st)
         \<and> change_contact args st = (Inr ''Invalid phone number format.'', st)"
  using assms
  by (cases st)
     (simp add: add_contact_def add_contact_body_def change_contact_def
                change_contact_body_def input_error_def)

theorem invalid_phone_rejected_witness:
  "str_split ''Bob 12345'' = ''Bob'' # ''12345'' # [] \<and> \<not> PHONE_PATTERN_match ''12345''
   \<and> add_contact ''Bob 12345'' ([], Map.empty) = (Inr ''Invalid phone number format.'', ([], Map.empty))
   \<and> change_contact ''Bob 12345'' ([], Map.empty) = (Inr ''Invalid phone number format.'', ([], Map.empty))"
proof -
  have s: "str_split ''Bob 12345'' = ''Bob'' # ''12345'' # []"
    by (simp add: str_split_def is_space_def)
  have p: "\<not> PHONE_PATTERN_match ''12345''"
    by (simp add: PHONE_PATTERN_match_def phone_body_def)
  show ?thesis
    using s p invalid_phone_rejected [OF s p, of "([], Map.empty)"] by simp
qed

text \<open>
  C4. After \<open>add\<close> with a name and a phone that matches the pattern, \<open>find\<close> on that name
  gives a record whose phone list contains the phone (as its last entry).
\<close>

theorem add_then_find:
  assumes "str_split args = nm # phone # rest" and "PHONE_PATTERN_match phone"
  shows "\<exists>msg book' fs' r. add_contact args (book, fs) = (Inr msg, (book', fs'))
           \<and> AddressBook_find book' nm = Some r \<and> phone \<in> set (phones r)
           \<and> last (phones r) = phone"
proof (cases "AddressBook_find book nm")
  case None
  have "AddressBook_find (AddressBook_add_record book (Record_init nm)) nm = Some (Record_init nm)"
    by (simp add: AddressBook_find_def AddressBook_add_record_def Record_init_def
          AList.update_conv')
  with None assms show ?thesis
    by (simp add: add_contact_def add_contact_body_def input_error_def Let_def
          Record_add_phone_def find_map_entry)
next
  case (Some r)
  with assms show ?thesis
    by (simp add: add_contact_def add_contact_body_def input_error_def Let_def
          Record_add_phone_def find_map_entry)
qed

theorem add_then_find_witness:
  "str_split ''Bob 1234567890'' = ''Bob'' # ''1234567890'' # []
   \<and> PHONE_PATTERN_match ''1234567890''
   \<and> (\<exists>msg book' fs' r. add_contact ''Bob 1234567890'' ([], Map.empty) = (Inr msg, (book', fs'))
           \<and> AddressBook_find book' ''Bob'' = Some r \<and> ''1234567890'' \<in> set (phones r)
           \<and> last (phones r) = ''1234567890'')"
  using split_bob phone_ok add_then_find [OF split_bob phone_ok, of "[]" Map.empty]
  by simp

text \<open>
  C7. \<open>change\<close> with a valid phone on a name that is not in the store returns the
  not-found message, raises nothing, and leaves the address book and the files as they
  were.
\<close>

theorem change_missing_not_found:
  assumes "str_split user_input = nm # phone # rest" and "PHONE_PATTERN_match phone"
      and "AddressBook_find book nm = None"
  shows "change_contact user_input (book, fs) = (Inr ''Contact not found!.'', (book, fs))"
  using assms
  by (simp add: change_contact_def change_contact_body_def input_error_def)

theorem change_missing_not_found_witness:
  "str_split ''Bob 1234567890'' = ''Bob'' # ''1234567890'' # []
   \<and> PHONE_PATTERN_match ''1234567890''
   \<and> AddressBook_find [] ''Bob'' = None
   \<and> change_contact ''Bob 1234567890'' ([], Map.empty) = (Inr ''Contact not found!.'', ([], Map.empty))"
proof -
  have f: "AddressBook_find [] ''Bob'' = None"
    by (simp add: AddressBook_find_def)
  show ?thesis
    using split_bob phone_ok f change_missing_not_found [OF split_bob phone_ok f, of Map.empty]
    by simp
qed

text \<open>
  C8. \<open>change\<close> with a valid phone on a name that is in the store, whatever its phone
  list was, leaves that record with exactly the one new phone (name and birthday as
  before), every other record as it was, the keys in their order, and saves the result.
\<close>

theorem change_replaces_phones:
  assumes "str_split user_input = nm # phone # rest" and "PHONE_PATTERN_match phone"
      and "AddressBook_find book nm = Some r"
  shows "\<exists>book'. change_contact user_input (book, fs)
              = (Inr ''Contact updated!.'', (book', save_data book' default_filename fs))
          \<and> AddressBook_find book' nm = Some (r\<lparr>phones := [phone]\<rparr>)
          \<and> (\<forall>k. k \<noteq> nm \<longrightarrow> AddressBook_find book' k = AddressBook_find book k)
          \<and> map fst book' = map fst book"
proof -
  let ?b = "AList.map_entry nm (\<lambda>_. r\<lparr>phones := [phone]\<rparr>) book"
  have keys: "map fst ?b = map fst book"
    by (rule map_entry_keys)
  have run: "change_contact user_input (book, fs)
              = (Inr ''Contact updated!.'', (?b, save_data ?b default_filename fs))"
    using assms
    by (simp add: change_contact_def change_contact_body_def input_error_def Let_def)
  have look: "AddressBook_find ?b nm = Some (r\<lparr>phones := [phone]\<rparr>)"
    using assms(3) by (simp add: find_map_entry)
  have others: "\<forall>k. k \<noteq> nm \<longrightarrow> AddressBook_find ?b k = AddressBook_find book k"
    by (simp add: find_map_entry)
  from run look others keys show ?thesis by blast
qed

theorem change_replaces_phones_witness:
  "str_split ''Bob 1234567890'' = ''Bob'' # ''1234567890'' # []
   \<and> PHONE_PATTERN_match ''1234567890''
   \<and> AddressBook_find [(''Bob'', bob_old)] ''Bob'' = Some bob_old
   \<and> (\<exists>book'. change_contact ''Bob 1234567890'' ([(''Bob'', bob_old)], Map.empty)
              = (Inr ''Contact updated!.'', (book', save_data book' default_filename Map.empty))
          \<and> AddressBook_find book' ''Bob'' = Some (bob_old\<lparr>phones := [''1234567890'']\<rparr>)
          \<and> (\<forall>k. k \<noteq> ''Bob'' \<longrightarrow> AddressBook_find book' k = AddressBook_find [(''Bob'', bob_old)] k)
          \<and> map fst book' = map fst [(''Bob'', bob_old)])"
proof -
  have f: "AddressBook_find [(''Bob'', bob_old)] ''Bob'' = Some bob_old"
    by (simp add: AddressBook_find_def)
  show ?thesis
    using split_bob phone_ok f change_replaces_phones [OF split_bob phone_ok f, of Map.empty]
    by simp
qed

section \<open>What the handlers return\<close>

text \<open>
  The five decorated handlers that take an argument string raise nothing: whatever the
  input, each returns a message.
\<close>

lemma input_error_ValueError: "input_error (Inl (ValueError m)) = Inr m"
  by (simp add: input_error_def)

lemma Record_add_phone_error:
  "Record_add_phone r phone = Inl e \<Longrightarrow> e = ValueError ''Invalid phone number format.''"
  by (auto simp: Record_add_phone_def split: if_splits)

lemma Record_add_birthday_error:
  "Record_add_birthday r s = Inl e \<Longrightarrow> e = ValueError ''Invalid date format. Use DD-MM-YYYY''"
  by (auto simp: Record_add_birthday_def Birthday_def split: option.splits sum.splits)

lemma add_contact_returns: "\<exists>m. fst (add_contact args st) = Inr m"
  by (cases st)
     (auto simp: add_contact_def add_contact_body_def input_error_def Let_def
           split: list.splits option.splits sum.splits prod.splits
           dest!: Record_add_phone_error)

lemma change_contact_returns: "\<exists>m. fst (change_contact user_input st) = Inr m"
  by (cases st)
     (auto simp: change_contact_def change_contact_body_def input_error_def Let_def
           split: list.splits option.splits)

lemma show_phone_returns: "\<exists>m. fst (show_phone user_input st) = Inr m"
  by (auto simp: show_phone_def show_phone_body_def input_error_def split: option.splits)

lemma add_birthday_returns: "\<exists>m. fst (add_birthday user_input st) = Inr m"
  by (cases st)
     (auto simp: add_birthday_def add_birthday_body_def input_error_def Let_def
           split: list.splits option.splits sum.splits
           dest!: Record_add_birthday_error)

lemma show_birthday_returns: "\<exists>m. fst (show_birthday zpad user_input st) = Inr m"
  by (auto simp: show_birthday_def show_birthday_body_def input_error_def split: option.splits)

text \<open>
  C6. Every handler returns a message and none raises (the lemmas above), and a missing
  contact gives the not-found message; but the message for malformed arguments is not
  always guidance. \<open>add\<close> and \<open>change\<close> check the number of tokens and ask for name and
  phone; \<open>add_birthday\<close> has no such check, so with one token the unpacking fails and
  what the user reads is the interpreter's text for it.
\<close>

theorem add_birthday_one_token:
  "add_birthday ''Alice'' st
     = (Inr ''not enough values to unpack (expected at least 2, got 1)'', st)"
  by (cases st) (simp add: add_birthday_def add_birthday_body_def input_error_def
                     str_split_def is_space_def)

section \<open>Upcoming birthdays\<close>

lemma date_le_antisym: "date_le a b \<Longrightarrow> date_le b a \<Longrightarrow> a = b"
  by (auto simp: date_le_def)

lemma upcoming_loop_window:
  "upcoming_loop today next_week book acc = Inr ups \<Longrightarrow> (n, t) \<in> set ups \<Longrightarrow>
     (n, t) \<in> set acc \<or> (date_le today t \<and> date_le t next_week)"
proof (induction book arbitrary: acc)
  case Nil
  then show ?case by simp
next
  case (Cons p book)
  obtain k r where p: "p = (k, r)" by (cases p)
  show ?case
  proof (cases "birthday r")
    case None
    with Cons p show ?thesis by simp
  next
    case (Some b)
    show ?thesis
    proof (cases "date_replace_year b (year today)")
      case (Inl e)
      with Cons.prems p Some show ?thesis by simp
    next
      case (Inr d)
      show ?thesis
      proof (cases "date_le today d \<and> date_le d next_week")
        case True
        with Cons.prems p Some Inr
        have "upcoming_loop today next_week book (acc @ [(name r, d)]) = Inr ups" by simp
        from Cons.IH [OF this Cons.prems(2)] True show ?thesis by auto
      next
        case False
        with Cons.prems p Some Inr
        have "upcoming_loop today next_week book acc = Inr ups" by auto
        from Cons.IH [OF this Cons.prems(2)] show ?thesis .
      qed
    qed
  qed
qed

lemma upcoming_loop_keeps:
  "upcoming_loop today next_week book acc = Inr ups \<Longrightarrow> set acc \<subseteq> set ups"
proof (induction today next_week book acc rule: upcoming_loop.induct)
  case (1 today next_week acc)
  then show ?case by simp
next
  case (2 today next_week k r rest acc)
  then show ?case
    by (auto split: option.splits sum.splits if_splits)
qed

lemma upcoming_loop_complete:
  assumes "upcoming_loop today next_week book acc = Inr ups"
      and "(k, r) \<in> set book" and "birthday r = Some b"
      and "date_replace_year b (year today) = Inr t"
      and "date_le today t" and "date_le t next_week"
  shows "(name r, t) \<in> set ups"
  using assms
proof (induction today next_week book acc rule: upcoming_loop.induct)
  case (1 today next_week acc)
  then show ?case by simp
next
  case (2 today next_week k' r' rest acc)
  show ?case
  proof (cases "(k, r) = (k', r')")
    case True
    with "2.prems" have "upcoming_loop today next_week rest (acc @ [(name r, t)]) = Inr ups"
      by simp
    from upcoming_loop_keeps [OF this] show ?thesis by simp
  next
    case False
    with "2.prems"(2) have "(k, r) \<in> set rest" by auto
    with 2 show ?thesis
      by (auto split: option.splits sum.splits if_splits)
  qed
qed

lemma add7_march: "date_add_days march_first 7 = Inr \<lparr>year = 2025, month = 3, day = 8\<rparr>"
  by (simp add: date_add_days_def march_first_def next_day_def days_in_month_def numeral_eq_Suc)

lemma add7: "date_add_days new_years_eve 7 = Inr \<lparr>year = 2025, month = 1, day = 6\<rparr>"
  by (simp add: date_add_days_def new_years_eve_def next_day_def days_in_month_def numeral_eq_Suc)

text \<open>
  C5. The listing should hold exactly the records whose birthday, moved to the current
  year, lies in the window from today to seven days on. A birthday on 29 February has no
  such date in a year that is not a leap year: \<open>replace\<close> raises, the decorator turns that
  into a returned message, and nothing is printed, not even the records that are in the
  window. Here Alice's birthday is tomorrow and is not listed.
\<close>

theorem birthdays_leap_day:
  "show_upcoming_birthdays zpad march_first [(''Alice'', alice), (''Bob'', bob_leap)]
     = Inr ([], Some ''day is out of range for month'')
   \<and> date_replace_year \<lparr>year = 2000, month = 3, day = 2\<rparr> (year march_first)
       = Inr \<lparr>year = 2025, month = 3, day = 2\<rparr>
   \<and> date_le march_first \<lparr>year = 2025, month = 3, day = 2\<rparr>
   \<and> date_add_days march_first 7 = Inr \<lparr>year = 2025, month = 3, day = 8\<rparr>
   \<and> date_le \<lparr>year = 2025, month = 3, day = 2\<rparr> \<lparr>year = 2025, month = 3, day = 8\<rparr>"
proof -
  have "upcoming_birthdays march_first [(''Alice'', alice), (''Bob'', bob_leap)]
          = Inl (ValueError ''day is out of range for month'')"
    unfolding upcoming_birthdays_def add7_march
    by (simp add: alice_def bob_leap_def march_first_def date_replace_year_def mk_date_def
          days_in_month_def is_leap_def date_le_def)
  then have "show_upcoming_birthdays zpad march_first [(''Alice'', alice), (''Bob'', bob_leap)]
     = Inr ([], Some ''day is out of range for month'')"
    by (simp add: show_upcoming_birthdays_def show_upcoming_birthdays_body_def input_error_def)
  then show ?thesis
    by (simp add: add7_march)
       (simp add: march_first_def date_replace_year_def mk_date_def days_in_month_def date_le_def)
qed

text \<open>Without the 29 February record the same day lists Alice.\<close>

lemma birthdays_without_leap_day:
  "show_upcoming_birthdays zpad march_first [(''Alice'', alice)]
     = Inr ([''Alice: 02-03-2025''], None)"
proof -
  have "upcoming_birthdays march_first [(''Alice'', alice)]
          = Inr [(''Alice'', \<lparr>year = 2025, month = 3, day = 2\<rparr>)]"
    unfolding upcoming_birthdays_def add7_march
    by (simp add: alice_def march_first_def date_replace_year_def mk_date_def
          days_in_month_def date_le_def)
  moreover have "strftime_dmy True \<lparr>year = 2025, month = 3, day = 2\<rparr> = ''02-03-2025''"
    and "strftime_dmy False \<lparr>year = 2025, month = 3, day = 2\<rparr> = ''02-03-2025''"
    by code_simp+
  then have "strftime_dmy zpad \<lparr>year = 2025, month = 3, day = 2\<rparr> = ''02-03-2025''"
    by (cases zpad) simp_all
  ultimately show ?thesis
    by (simp add: show_upcoming_birthdays_def show_upcoming_birthdays_body_def)
qed

text \<open>
  Books stay well formed: the empty book is, and \<open>add\<close>, \<open>change\<close> and \<open>add-birthday\<close>
  keep it so.
\<close>

lemma well_formed_Nil: "well_formed []"
  by (simp add: well_formed_def)

lemma well_formed_name:
  "well_formed book \<Longrightarrow> (k, r) \<in> set book \<Longrightarrow> name r = k"
  by (auto simp: well_formed_def list_all_iff)

lemma well_formed_find_name:
  "well_formed book \<Longrightarrow> AddressBook_find book k = Some r \<Longrightarrow> name r = k"
  by (auto simp: AddressBook_find_def dest: map_of_SomeD well_formed_name)

lemma well_formed_same_name:
  assumes "well_formed book" and "(k, r) \<in> set book" and "(k', r') \<in> set book"
      and "name r' = name r"
  shows "r' = r"
proof -
  from assms have "k' = k"
    by (auto dest: well_formed_name)
  moreover from assms(1) have "distinct (map fst book)"
    by (simp add: well_formed_def)
  ultimately show ?thesis
    using assms(2,3) by (auto dest: eq_key_imp_eq_value)
qed

lemma list_all_update:
  "list_all P xs \<Longrightarrow> P (k, v) \<Longrightarrow> list_all P (AList.update k v xs)"
  by (induct xs) auto

lemma list_all_map_entry:
  "list_all P xs \<Longrightarrow> P (k, v) \<Longrightarrow> list_all P (AList.map_entry k (\<lambda>_. v) xs)"
  by (induct xs) auto

lemma well_formed_update:
  "well_formed book \<Longrightarrow> name r = k \<Longrightarrow> well_formed (AList.update k r book)"
  by (simp add: well_formed_def AList.distinct_update list_all_update)

lemma well_formed_map_entry:
  "well_formed book \<Longrightarrow> name r = k \<Longrightarrow> well_formed (AList.map_entry k (\<lambda>_. r) book)"
  by (simp add: well_formed_def map_entry_keys list_all_map_entry)

lemma well_formed_changed:
  assumes "well_formed book" and "AddressBook_find book k = Some r" and "name r' = name r"
  shows "well_formed (AList.map_entry k (\<lambda>_. r') book)"
  using assms well_formed_find_name [OF assms(1,2)] by (simp add: well_formed_map_entry)

lemma add_contact_well_formed:
  assumes "well_formed book" and "add_contact args (book, fs) = (res, (book', fs'))"
  shows "well_formed book'"
proof (cases "str_split args")
  case Nil
  with assms show ?thesis
    by (auto simp: add_contact_def add_contact_body_def)
next
  case (Cons nm ts)
  show ?thesis
  proof (cases ts)
    case Nil
    with Cons assms show ?thesis
      by (auto simp: add_contact_def add_contact_body_def)
  next
    case (Cons phone rest)
    show ?thesis
    proof (cases "AddressBook_find book nm")
      case None
      have "well_formed (AddressBook_add_record book (Record_init nm))"
        using assms(1) by (simp add: AddressBook_add_record_def Record_init_def well_formed_update)
      with None Cons \<open>str_split args = nm # ts\<close> assms show ?thesis
        by (auto simp: add_contact_def add_contact_body_def Let_def Record_add_phone_def
              Record_init_def well_formed_map_entry split: if_splits)
    next
      case (Some r)
      with Cons \<open>str_split args = nm # ts\<close> assms show ?thesis
        by (auto simp: add_contact_def add_contact_body_def Let_def Record_add_phone_def
              well_formed_changed split: if_splits)
    qed
  qed
qed

lemma change_contact_well_formed:
  assumes "well_formed book" and "change_contact user_input (book, fs) = (res, (book', fs'))"
  shows "well_formed book'"
  using assms
  by (auto simp: change_contact_def change_contact_body_def Let_def well_formed_changed
           split: list.splits if_splits option.splits)

lemma add_birthday_well_formed:
  assumes "well_formed book" and "add_birthday user_input (book, fs) = (res, (book', fs'))"
  shows "well_formed book'"
  using assms
  by (auto simp: add_birthday_def add_birthday_body_def Let_def Record_add_birthday_def
                 well_formed_changed
           split: list.splits if_splits option.splits sum.splits)

text \<open>Every entry the loop collects stems from a record of the book whose birthday, moved
  to the current year, is that entry's date and lies in the window.\<close>

lemma upcoming_loop_provenance:
  "upcoming_loop today next_week book acc = Inr ups \<Longrightarrow> (n, d) \<in> set ups \<Longrightarrow>
     (n, d) \<in> set acc
     \<or> (\<exists>k r b. (k, r) \<in> set book \<and> name r = n \<and> birthday r = Some b
          \<and> date_replace_year b (year today) = Inr d
          \<and> date_le today d \<and> date_le d next_week)"
proof (induction today next_week book acc rule: upcoming_loop.induct)
  case (1 today next_week acc)
  then show ?case by simp
next
  case (2 today next_week k r rest acc)
  show ?case
  proof (cases "birthday r")
    case None
    with "2.prems" have "upcoming_loop today next_week rest acc = Inr ups" by simp
    from "2.IH"(1) [OF None this "2.prems"(2)] show ?thesis by auto
  next
    case (Some b)
    show ?thesis
    proof (cases "date_replace_year b (year today)")
      case (Inl e)
      with "2.prems" Some show ?thesis by simp
    next
      case (Inr t)
      show ?thesis
      proof (cases "date_le today t \<and> date_le t next_week")
        case True
        with "2.prems" Some Inr
        have "upcoming_loop today next_week rest (acc @ [(name r, t)]) = Inr ups" by simp
        from "2.IH"(2) [OF Some Inr True this "2.prems"(2)] Some Inr True show ?thesis
          by auto
      next
        case False
        with "2.prems" Some Inr
        have "upcoming_loop today next_week rest acc = Inr ups" by auto
        from "2.IH"(3) [OF Some Inr False this "2.prems"(2)] show ?thesis by auto
      qed
    qed
  qed
qed

text \<open>
  C10. In a well-formed book, a record whose birthday in the current year lies strictly
  before today has no entry at all in the list the loop collects (the list that is
  printed), under any date: not under this year's date, and not under next year's when
  that is within seven days. The window does not wrap over the end of the year.
\<close>

theorem past_birthday_excluded:
  assumes "well_formed book" and "upcoming_birthdays today book = Inr ups"
      and "(k, r) \<in> set book" and "birthday r = Some b"
      and "date_replace_year b (year today) = Inr t" and "date_lt t today"
  shows "\<forall>d. (name r, d) \<notin> set ups"
proof (intro allI notI)
  fix d
  assume mem: "(name r, d) \<in> set ups"
  from assms(2) obtain next_week where "upcoming_loop today next_week book [] = Inr ups"
    by (auto simp: upcoming_birthdays_def split: sum.splits)
  from upcoming_loop_provenance [OF this mem]
  obtain k' r' b' where src: "(k', r') \<in> set book" "name r' = name r" "birthday r' = Some b'"
      "date_replace_year b' (year today) = Inr d" "date_le today d"
    by auto
  from well_formed_same_name [OF assms(1,3) src(1,2)] have "r' = r" .
  with src(3,4) assms(4,5) have "d = t" by simp
  with src(5) assms(6) show False
    by (auto simp: date_lt_def dest: date_le_antisym)
qed

theorem past_birthday_excluded_witness:
  "well_formed [(''Eve'', eve), (''Zed'', zed)]
   \<and> upcoming_birthdays new_years_eve [(''Eve'', eve), (''Zed'', zed)]
       = Inr [(''Zed'', \<lparr>year = 2024, month = 12, day = 31\<rparr>)]
   \<and> (''Eve'', eve) \<in> set [(''Eve'', eve), (''Zed'', zed)]
   \<and> birthday eve = Some \<lparr>year = 1990, month = 1, day = 2\<rparr>
   \<and> date_replace_year \<lparr>year = 1990, month = 1, day = 2\<rparr> (year new_years_eve)
        = Inr \<lparr>year = 2024, month = 1, day = 2\<rparr>
   \<and> date_lt \<lparr>year = 2024, month = 1, day = 2\<rparr> new_years_eve
   \<and> (\<forall>d. (name eve, d) \<notin> set [(''Zed'', \<lparr>year = 2024, month = 12, day = 31\<rparr>)])
   \<and> date_le new_years_eve \<lparr>year = 2025, month = 1, day = 2\<rparr>
   \<and> date_le \<lparr>year = 2025, month = 1, day = 2\<rparr> \<lparr>year = 2025, month = 1, day = 6\<rparr>"
proof -
  have w: "well_formed [(''Eve'', eve), (''Zed'', zed)]"
    by (simp add: well_formed_def eve_def zed_def)
  have r: "date_replace_year \<lparr>year = 1990, month = 1, day = 2\<rparr> (year new_years_eve)
        = Inr \<lparr>year = 2024, month = 1, day = 2\<rparr>"
    by (simp add: date_replace_year_def mk_date_def new_years_eve_def days_in_month_def)
  have rz: "date_replace_year \<lparr>year = 1985, month = 12, day = 31\<rparr> (year new_years_eve)
        = Inr \<lparr>year = 2024, month = 12, day = 31\<rparr>"
    by (simp add: date_replace_year_def mk_date_def new_years_eve_def days_in_month_def)
  have lt: "date_lt \<lparr>year = 2024, month = 1, day = 2\<rparr> new_years_eve"
    by (simp add: date_lt_def date_le_def new_years_eve_def)
  have b: "birthday eve = Some \<lparr>year = 1990, month = 1, day = 2\<rparr>"
    by (simp add: eve_def)
  have bz: "birthday zed = Some \<lparr>year = 1985, month = 12, day = 31\<rparr>" "name zed = ''Zed''"
    by (simp_all add: zed_def)
  have u: "upcoming_birthdays new_years_eve [(''Eve'', eve), (''Zed'', zed)]
             = Inr [(''Zed'', \<lparr>year = 2024, month = 12, day = 31\<rparr>)]"
    unfolding upcoming_birthdays_def add7
    using r rz b bz by (simp add: date_le_def new_years_eve_def)
  have m: "(''Eve'', eve) \<in> set [(''Eve'', eve), (''Zed'', zed)]" by simp
  show ?thesis
    using w u m b r lt past_birthday_excluded [OF w u m b r lt]
    by (simp add: date_le_def new_years_eve_def)
qed

section \<open>Parsing and formatting a birthday\<close>

lemma is_digit_facts:
  assumes "is_digit c"
  shows "digit_val c < 10" and "digit_char (digit_val c) = c" and "\<not> is_space c"
    and "c \<noteq> CHR ''-''" and "c = CHR ''0'' \<longleftrightarrow> digit_val c = 0"
  using assms by (auto simp: is_digit_def digit_val_def digit_char_def is_space_def char_of_eq_iff)

lemma decimal_digit: "n < 10 \<Longrightarrow> decimal n = [digit_char n]"
  by (simp add: decimal.simps)

lemma decimal_step: "0 < n \<Longrightarrow> b < 10 \<Longrightarrow> decimal (10 * n + b) = decimal n @ [digit_char b]"
  by (subst decimal.simps) simp

lemma zfill_step:
  assumes "b < 10" and "2 \<le> w"
  shows "zfill w (decimal (10 * n + b)) = zfill (w - 1) (decimal n) @ [digit_char b]"
proof (cases "n = 0")
  case True
  from assms(2) obtain k where w: "w = Suc (Suc k)"
    by (auto simp: numeral_2_eq_2 Suc_le_eq dest: less_imp_Suc_add)
  have "digit_char 0 = CHR ''0''"
    by (simp add: digit_char_def char_of_eq_iff)
  with True assms(1) w show ?thesis
    by (simp add: zfill_def decimal_digit replicate_append_same)
next
  case False
  with assms show ?thesis
    by (simp add: zfill_def decimal_step)
qed

lemma zfill_one: "n < 10 \<Longrightarrow> zfill 1 (decimal n) = [digit_char n]"
  by (simp add: zfill_def decimal_digit)

lemma zfill2_digits:
  assumes "is_digit a" and "is_digit b"
  shows "zfill 2 (decimal (10 * digit_val a + digit_val b)) = [a, b]"
  using assms by (simp add: zfill_step zfill_one [unfolded One_nat_def] is_digit_facts)

lemma zfill4_digits:
  assumes "is_digit a" and "is_digit b" and "is_digit c" and "is_digit d"
  shows "zfill 4 (decimal (10 * (10 * (10 * digit_val a + digit_val b) + digit_val c) + digit_val d))
           = [a, b, c, d]"
proof -
  have "zfill 4 (decimal (10 * (10 * (10 * digit_val a + digit_val b) + digit_val c) + digit_val d))
          = zfill 3 (decimal (10 * (10 * digit_val a + digit_val b) + digit_val c)) @ [d]"
    using zfill_step [of "digit_val d" 4] assms(4) by (simp only: is_digit_facts) simp
  also have "zfill 3 (decimal (10 * (10 * digit_val a + digit_val b) + digit_val c))
          = zfill 2 (decimal (10 * digit_val a + digit_val b)) @ [c]"
    using zfill_step [of "digit_val c" 3] assms(3) by (simp only: is_digit_facts) simp
  finally show ?thesis
    using assms(1,2) by (simp add: zfill2_digits)
qed

lemma decimal4_digits:
  assumes "is_digit a" and "is_digit b" and "is_digit c" and "is_digit d" and "a \<noteq> CHR ''0''"
  shows "decimal (10 * (10 * (10 * digit_val a + digit_val b) + digit_val c) + digit_val d)
           = [a, b, c, d]"
proof -
  define n1 where "n1 = digit_val a"
  define n2 where "n2 = 10 * n1 + digit_val b"
  define n3 where "n3 = 10 * n2 + digit_val c"
  have pos: "0 < n1" "0 < n2" "0 < n3"
    using assms(1,5) is_digit_facts(5) [of a] by (simp_all add: n1_def n2_def n3_def)
  have "decimal n1 = [a]"
    using assms(1) by (simp add: n1_def decimal_digit is_digit_facts)
  then have "decimal n2 = [a, b]"
    unfolding n2_def using pos(1) assms(2) by (simp only: decimal_step is_digit_facts) simp
  then have "decimal n3 = [a, b, c]"
    unfolding n3_def using pos(2) assms(3) by (simp only: decimal_step is_digit_facts) simp
  then have "decimal (10 * n3 + digit_val d) = [a, b, c, d]"
    using pos(3) assms(4) by (simp only: decimal_step is_digit_facts) simp
  then show ?thesis
    by (simp only: n1_def n2_def n3_def)
qed

lemma py_int2:
  assumes "is_digit a" and "is_digit b"
  shows "py_int [a, b] = 10 * digit_val a + digit_val b"
  using assms by (simp add: py_int_def str_strip_def is_digit_facts)

lemma py_int4:
  assumes "is_digit a" and "is_digit b" and "is_digit c" and "is_digit d"
  shows "py_int [a, b, c, d]
           = 10 * (10 * (10 * digit_val a + digit_val b) + digit_val c) + digit_val d"
  using assms by (simp add: py_int_def str_strip_def is_digit_facts)


lemma mk_date_Inr: "mk_date y m d = Inr v \<Longrightarrow> v = \<lparr>year = y, month = m, day = d\<rparr>"
  by (auto simp: mk_date_def split: if_splits)

lemma strptime_zero_padded:
  assumes "is_digit d1" "is_digit d2" "is_digit m1" "is_digit m2"
      and "is_digit y1" "is_digit y2" "is_digit y3" "is_digit y4"
      and "strptime_dmy [d1, d2, CHR ''-'', m1, m2, CHR ''-'', y1, y2, y3, y4] = Some v"
  shows "v = \<lparr>year = py_int [y1, y2, y3, y4], month = py_int [m1, m2], day = py_int [d1, d2]\<rparr>"
proof -
  have "takeWhile (\<lambda>c. c \<noteq> CHR ''-'') [d1, d2, CHR ''-'', m1, m2, CHR ''-'', y1, y2, y3, y4] = [d1, d2]"
    using assms(1,2) by (simp add: is_digit_facts)
  moreover have "takeWhile (\<lambda>c. c \<noteq> CHR ''-'') [m1, m2, CHR ''-'', y1, y2, y3, y4] = [m1, m2]"
    using assms(3,4) by (simp add: is_digit_facts)
  ultimately have "mk_date (py_int [y1, y2, y3, y4]) (py_int [m1, m2]) (py_int [d1, d2]) = Inr v"
    using assms(9) by (simp add: strptime_dmy_def split: if_splits sum.splits)
  then show ?thesis by (rule mk_date_Inr)
qed

lemma strftime_zero_padded:
  assumes "is_digit d1" "is_digit d2" "is_digit m1" "is_digit m2"
      and "is_digit y1" "is_digit y2" "is_digit y3" "is_digit y4"
      and "zpad \<or> y1 \<noteq> CHR ''0''"
  shows "strftime_dmy zpad \<lparr>year = py_int [y1, y2, y3, y4], month = py_int [m1, m2], day = py_int [d1, d2]\<rparr>
           = [d1, d2, CHR ''-'', m1, m2, CHR ''-'', y1, y2, y3, y4]"
proof (cases zpad)
  case True
  have "zfill 4 (decimal (py_int [y1, y2, y3, y4])) = [y1, y2, y3, y4]"
    using assms(5-8) by (simp only: py_int4 zfill4_digits)
  with True assms(1-4) show ?thesis
    by (simp add: strftime_dmy_def py_int2 zfill2_digits)
next
  case False
  with assms(9) have "y1 \<noteq> CHR ''0''" by simp
  from decimal4_digits [OF assms(5-8) this] assms(5-8)
  have "decimal (py_int [y1, y2, y3, y4]) = [y1, y2, y3, y4]"
    by (simp only: py_int4)
  with False assms(1-4) show ?thesis
    by (simp add: strftime_dmy_def py_int2 zfill2_digits)
qed

text \<open>
  C9, as stated, fails: the parser accepts a day and a month of one digit, and the
  formatter writes two; and where the platform does not pad the year, a year below 1000,
  which must be written with four digits to parse, is shown with fewer.
\<close>

theorem birthday_round_trip_counterexample:
  "Record_add_birthday bob_new ''1-1-2000''
     = Inr (bob_new\<lparr>birthday := Some \<lparr>year = 2000, month = 1, day = 1\<rparr>\<rparr>)
   \<and> fst (show_birthday True ''Bob''
        ([(''Bob'', bob_new\<lparr>birthday := Some \<lparr>year = 2000, month = 1, day = 1\<rparr>\<rparr>)], Map.empty))
       = Inr ''01-01-2000''
   \<and> fst (show_birthday False ''Bob''
        ([(''Bob'', bob_new\<lparr>birthday := Some \<lparr>year = 2000, month = 1, day = 1\<rparr>\<rparr>)], Map.empty))
       = Inr ''01-01-2000''
   \<and> ''01-01-2000'' \<noteq> ''1-1-2000''
   \<and> Record_add_birthday bob_new ''01-01-0999''
     = Inr (bob_new\<lparr>birthday := Some \<lparr>year = 999, month = 1, day = 1\<rparr>\<rparr>)
   \<and> fst (show_birthday False ''Bob''
        ([(''Bob'', bob_new\<lparr>birthday := Some \<lparr>year = 999, month = 1, day = 1\<rparr>\<rparr>)], Map.empty))
       = Inr ''01-01-999''
   \<and> ''01-01-999'' \<noteq> ''01-01-0999''"
  by code_simp

text \<open>
  C9, amended. For a string of the form \<open>DD-MM-YYYY\<close> with two digits for the day, two for
  the month and four for the year, that parses, storing it as a birthday and showing the
  birthday gives the string back, provided the year does not begin with \<open>0\<close> or the
  platform pads the year to four digits.
\<close>

theorem birthday_round_trip:
  assumes "zero_padded_dmy s" and "zpad \<or> s ! 6 \<noteq> CHR ''0''"
      and "Record_add_birthday r s = Inr r'"
      and "AddressBook_find book (str_strip user_input) = Some r'"
  shows "show_birthday zpad user_input (book, fs) = (Inr s, (book, fs))"
proof -
  from assms(1) obtain d1 d2 m1 m2 y1 y2 y3 y4
    where s: "s = [d1, d2, CHR ''-'', m1, m2, CHR ''-'', y1, y2, y3, y4]"
      and dg: "is_digit d1" "is_digit d2" "is_digit m1" "is_digit m2"
              "is_digit y1" "is_digit y2" "is_digit y3" "is_digit y4"
    by (auto simp: zero_padded_dmy_def split: list.splits)
  from assms(3) obtain v where v: "strptime_dmy s = Some v" and r': "r' = r\<lparr>birthday := Some v\<rparr>"
    by (auto simp: Record_add_birthday_def Birthday_def split: option.splits sum.splits)
  have "v = \<lparr>year = py_int [y1, y2, y3, y4], month = py_int [m1, m2], day = py_int [d1, d2]\<rparr>"
    using strptime_zero_padded [OF dg] v s by simp
  moreover have "zpad \<or> y1 \<noteq> CHR ''0''"
    using assms(2) s by simp
  ultimately have "strftime_dmy zpad v = s"
    using strftime_zero_padded [OF dg] s by simp
  with assms(4) r' show ?thesis
    by (simp add: show_birthday_def show_birthday_body_def input_error_def)
qed

lemma add_birthday_padded:
  "Record_add_birthday bob_new ''15-08-1990''
     = Inr (bob_new\<lparr>birthday := Some \<lparr>year = 1990, month = 8, day = 15\<rparr>\<rparr>)"
  by code_simp

theorem birthday_round_trip_witness:
  "zero_padded_dmy ''15-08-1990'' \<and> (False \<or> ''15-08-1990'' ! 6 \<noteq> CHR ''0'')
   \<and> Record_add_birthday bob_new ''15-08-1990''
        = Inr (bob_new\<lparr>birthday := Some \<lparr>year = 1990, month = 8, day = 15\<rparr>\<rparr>)
   \<and> AddressBook_find [(''Bob'', bob_new\<lparr>birthday := Some \<lparr>year = 1990, month = 8, day = 15\<rparr>\<rparr>)]
        (str_strip '' Bob '') = Some (bob_new\<lparr>birthday := Some \<lparr>year = 1990, month = 8, day = 15\<rparr>\<rparr>)
   \<and> show_birthday False '' Bob ''
        ([(''Bob'', bob_new\<lparr>birthday := Some \<lparr>year = 1990, month = 8, day = 15\<rparr>\<rparr>)], Map.empty)
        = (Inr ''15-08-1990'',
           ([(''Bob'', bob_new\<lparr>birthday := Some \<lparr>year = 1990, month = 8, day = 15\<rparr>\<rparr>)], Map.empty))"
proof -
  have z: "zero_padded_dmy ''15-08-1990''"
    by (simp add: zero_padded_dmy_def is_digit_def)
  have y: "False \<or> ''15-08-1990'' ! 6 \<noteq> CHR ''0''"
    by simp
  have f: "AddressBook_find [(''Bob'', bob_new\<lparr>birthday := Some \<lparr>year = 1990, month = 8, day = 15\<rparr>\<rparr>)]
        (str_strip '' Bob '') = Some (bob_new\<lparr>birthday := Some \<lparr>year = 1990, month = 8, day = 15\<rparr>\<rparr>)"
    by (simp add: AddressBook_find_def str_strip_def is_space_def)
  show ?thesis
    using z y add_birthday_padded f birthday_round_trip [OF z y add_birthday_padded f, of Map.empty]
    by simp
qed

end
